theory Spec2Isabelle
  imports Complex_Main
begin

section \<open>Guided-breathing timer: the session clock and state machine of app.js\<close>

text \<open>
  The development embeds the timing core of \<^verbatim>\<open>src/app.js\<close>: the exercise catalogue,
  the shared \<^verbatim>\<open>state\<close> object, the start, pause and reset handlers and the per-frame
  function \<^verbatim>\<open>animate\<close>.

  JavaScript numbers are modelled by \<^typ>\<open>real\<close>: arithmetic is exact, so rounding of
  IEEE doubles is outside the model. The one non-number value the modelled code can
  produce, \<^verbatim>\<open>NaN\<close>, is \<^term>\<open>None\<close> in a \<^typ>\<open>real option\<close>; \<^verbatim>\<open>null\<close> timestamps are
  \<^term>\<open>None\<close> as well. Values that are always integers in the code (the floored total
  time, the round counters) are \<^typ>\<open>int\<close>, the phase index is a \<^typ>\<open>nat\<close>.
  Canvas drawing, audio, the wake lock, persistence and the DOM are effects outside the
  state object and are not modelled; the fields that only the canvas reads
  (\<^verbatim>\<open>devicePixelRatio\<close>, \<^verbatim>\<open>viewportWidth\<close>, \<^verbatim>\<open>viewportHeight\<close>, \<^verbatim>\<open>prefersReducedMotion\<close>)
  are left out of the record.
\<close>

subsection \<open>Exercise catalogue\<close>

record phase =
  name :: string
  duration :: real
  color :: string

datatype exercise = box | fourSevenEight | longExhale | coherent

text \<open>\<^verbatim>\<open>exerciseTypes[type].getPhases(phaseTime, exhaleDuration)\<close>.\<close>

fun getPhases :: "exercise \<Rightarrow> real \<Rightarrow> real \<Rightarrow> phase list" where
  "getPhases box phaseTime _ =
     [\<lparr>name = ''Inhale'', duration = phaseTime, color = ''#f97316''\<rparr>,
      \<lparr>name = ''Hold'', duration = phaseTime, color = ''#fbbf24''\<rparr>,
      \<lparr>name = ''Exhale'', duration = phaseTime, color = ''#38bdf8''\<rparr>,
      \<lparr>name = ''Wait'', duration = phaseTime, color = ''#22c55e''\<rparr>]"
| "getPhases fourSevenEight _ _ =
     [\<lparr>name = ''Inhale'', duration = 4, color = ''#f97316''\<rparr>,
      \<lparr>name = ''Hold'', duration = 7, color = ''#fbbf24''\<rparr>,
      \<lparr>name = ''Exhale'', duration = 8, color = ''#38bdf8''\<rparr>]"
| "getPhases longExhale _ exhaleDuration =
     [\<lparr>name = ''Inhale'', duration = 4, color = ''#f97316''\<rparr>,
      \<lparr>name = ''Exhale'', duration = exhaleDuration, color = ''#38bdf8''\<rparr>]"
| "getPhases coherent phaseTime _ =
     [\<lparr>name = ''Inhale'', duration = phaseTime, color = ''#f97316''\<rparr>,
      \<lparr>name = ''Exhale'', duration = phaseTime, color = ''#38bdf8''\<rparr>]"

fun hasPhaseTimeSlider :: "exercise \<Rightarrow> bool" where
  "hasPhaseTimeSlider box = True"
| "hasPhaseTimeSlider fourSevenEight = False"
| "hasPhaseTimeSlider longExhale = True"
| "hasPhaseTimeSlider coherent = True"

text \<open>\<^verbatim>\<open>phaseTimeRange.default\<close>; the 4-7-8 entry has no \<^verbatim>\<open>phaseTimeRange\<close>.\<close>

fun phaseTimeDefault :: "exercise \<Rightarrow> real option" where
  "phaseTimeDefault box = Some 4"
| "phaseTimeDefault fourSevenEight = None"
| "phaseTimeDefault longExhale = Some 6"
| "phaseTimeDefault coherent = Some 5"

subsection \<open>The state object\<close>

record state =
  isPlaying :: bool
  count :: nat
  countdown :: "real option"
  totalTime :: int
  soundEnabled :: bool
  countdownEnabled :: bool
  timeLimit :: string
  sessionComplete :: bool
  timeLimitReached :: bool
  phaseTime :: real
  exhaleDuration :: real
  exerciseType :: exercise
  pulseStartTime :: "real option"
  hasStarted :: bool
  startTime :: "real option"
  targetRounds :: int
  completedRounds :: int

text \<open>The object literal \<^verbatim>\<open>const state = {...}\<close>.\<close>

definition initialState :: state where
  "initialState =
     \<lparr>isPlaying = False, count = 0, countdown = Some 4, totalTime = 0,
      soundEnabled = False, countdownEnabled = False, timeLimit = [],
      sessionComplete = False, timeLimitReached = False, phaseTime = 4,
      exhaleDuration = 6, exerciseType = box, pulseStartTime = None,
      hasStarted = False, startTime = None, targetRounds = 0, completedRounds = 0\<rparr>"

text \<open>
  \<^verbatim>\<open>loadSettings\<close> overwrites the five persisted fields with whatever well-typed values
  the store holds; the arguments are those values.
\<close>

definition loadSettings :: "bool \<Rightarrow> bool \<Rightarrow> exercise \<Rightarrow> real \<Rightarrow> real \<Rightarrow> state \<Rightarrow> state" where
  "loadSettings sound cnt ty pt ex s =
     s\<lparr>soundEnabled := sound, countdownEnabled := cnt, exerciseType := ty,
       phaseTime := pt, exhaleDuration := ex\<rparr>"

definition getCurrentPhases :: "state \<Rightarrow> phase list" where
  "getCurrentPhases s = getPhases (exerciseType s) (phaseTime s) (exhaleDuration s)"

text \<open>\<^verbatim>\<open>phases.reduce((sum, phase) => sum + phase.duration, 0)\<close>.\<close>

definition totalDuration :: "phase list \<Rightarrow> real" where
  "totalDuration phases = foldl (\<lambda>sum p. sum + duration p) 0 phases"

definition getTotalCycleTime :: "state \<Rightarrow> real" where
  "getTotalCycleTime s = totalDuration (getCurrentPhases s)"

subsection \<open>JavaScript primitives used by the handlers\<close>

text \<open>
  \<^verbatim>\<open>a % b\<close> on numbers: the remainder has the sign of the dividend (the quotient is
  truncated towards zero), and a zero divisor gives \<^verbatim>\<open>NaN\<close>.
\<close>

definition js_trunc :: "real \<Rightarrow> int" where
  "js_trunc q = (if 0 \<le> q then \<lfloor>q\<rfloor> else \<lceil>q\<rceil>)"

definition js_rem :: "real \<Rightarrow> real \<Rightarrow> real option" where
  "js_rem a b = (if b = 0 then None else Some (a - b * of_int (js_trunc (a / b))))"

text \<open>
  \<^verbatim>\<open>parseInt(string)\<close> with no radix: leading white space is skipped, a sign is read,
  a \<^verbatim>\<open>0x\<close> prefix selects base 16, the longest prefix of digits is the value, and no digit
  at all gives \<^verbatim>\<open>NaN\<close> (\<^term>\<open>None\<close>). White space is the ASCII part of the
  language's set; the result is an exact integer.
\<close>

definition isWhiteSpace :: "char \<Rightarrow> bool" where
  "isWhiteSpace c = (c \<in> set [CHR 0x20, CHR 0x09, CHR 0x0A, CHR 0x0B, CHR 0x0C, CHR 0x0D])"

definition digitValue :: "char \<Rightarrow> nat" where
  "digitValue c =
     (let k = (of_char c :: nat) in
      if 48 \<le> k \<and> k \<le> 57 then k - 48
      else if 97 \<le> k \<and> k \<le> 122 then k - 87
      else if 65 \<le> k \<and> k \<le> 90 then k - 55
      else 36)"

definition parseInt :: "string \<Rightarrow> int option" where
  "parseInt str =
     (let s1 = dropWhile isWhiteSpace str;
          sign = (case s1 of c # _ \<Rightarrow> (if c = CHR ''-'' then (- 1 :: int) else 1) | [] \<Rightarrow> 1);
          s2 = (case s1 of c # r \<Rightarrow> (if c = CHR ''-'' \<or> c = CHR ''+'' then r else s1) | [] \<Rightarrow> s1);
          hex = (case s2 of a # b # _ \<Rightarrow> a = CHR ''0'' \<and> (b = CHR ''x'' \<or> b = CHR ''X'') | _ \<Rightarrow> False);
          radix = (if hex then 16 else 10 :: nat);
          s3 = (if hex then drop 2 s2 else s2);
          ds = takeWhile (\<lambda>d. d < radix) (map digitValue s3)
      in if ds = [] then None
         else Some (sign * int (foldl (\<lambda>acc d. acc * radix + d) 0 ds)))"

text \<open>\<^verbatim>\<open>parseInt(x) || 0\<close> and \<^verbatim>\<open>parseInt(x) * 60 || 0\<close>: \<^verbatim>\<open>NaN\<close> and 0 both give 0.\<close>

definition parseIntOr0 :: "string \<Rightarrow> int" where
  "parseIntOr0 str = (case parseInt str of None \<Rightarrow> 0 | Some n \<Rightarrow> n)"

definition timeLimitSeconds :: "state \<Rightarrow> int" where
  "timeLimitSeconds s = (case parseInt (timeLimit s) of None \<Rightarrow> 0 | Some n \<Rightarrow> n * 60)"

text \<open>\<^verbatim>\<open>minutes.toString()\<close> for a non-negative integer: its decimal digits.\<close>

fun toString :: "nat \<Rightarrow> string" where
  "toString n =
     (if n < 10 then [char_of (48 + n)]
      else toString (n div 10) @ [char_of (48 + n mod 10)])"

text \<open>\<^verbatim>\<open>value.replace(/[^0-9]/g, '')\<close>.\<close>

definition isDigit :: "char \<Rightarrow> bool" where
  "isDigit c = (48 \<le> (of_char c :: nat) \<and> (of_char c :: nat) \<le> 57)"

definition stripNonDigits :: "string \<Rightarrow> string" where
  "stripNonDigits v = filter isDigit v"

text \<open>\<^verbatim>\<open>Math.ceil(phases[0].duration)\<close>; every catalogue entry has a first phase.\<close>

definition firstCountdown :: "state \<Rightarrow> real option" where
  "firstCountdown s = Some (of_int \<lceil>duration (getCurrentPhases s ! 0)\<rceil>)"

subsection \<open>Start, pause and reset\<close>

text \<open>
  The playing branch of \<^verbatim>\<open>togglePlay\<close> up to the assignment of \<^verbatim>\<open>startTime\<close>. The two
  timestamps are the two readings of \<^verbatim>\<open>performance.now()\<close>.
\<close>

definition togglePlayStart :: "real \<Rightarrow> real \<Rightarrow> state \<Rightarrow> state" where
  "togglePlayStart tPulse tStart s =
     (let s1 = s\<lparr>isPlaying := True, hasStarted := True, totalTime := 0\<rparr>;
          s2 = s1\<lparr>countdown := firstCountdown s1, count := 0, sessionComplete := False,
                 timeLimitReached := False, completedRounds := 0\<rparr>;
          s3 = (if exerciseType s2 = fourSevenEight \<and> timeLimit s2 \<noteq> []
                then s2\<lparr>targetRounds := parseIntOr0 (timeLimit s2)\<rparr>
                else s2\<lparr>targetRounds := 0\<rparr>)
      in s3\<lparr>pulseStartTime := Some tPulse, startTime := Some tStart\<rparr>)"

text \<open>The pausing branch of \<^verbatim>\<open>togglePlay\<close>.\<close>

definition togglePlayStop :: "state \<Rightarrow> state" where
  "togglePlayStop s =
     (let s1 = s\<lparr>isPlaying := False, totalTime := 0\<rparr>
      in s1\<lparr>countdown := firstCountdown s1, count := 0, sessionComplete := False,
            timeLimitReached := False, hasStarted := False, targetRounds := 0,
            completedRounds := 0, pulseStartTime := None, startTime := None\<rparr>)"

definition resetToStart :: "state \<Rightarrow> state" where
  "resetToStart s =
     (let s1 = s\<lparr>isPlaying := False, totalTime := 0\<rparr>
      in s1\<lparr>countdown := firstCountdown s1, count := 0, sessionComplete := False,
            timeLimit := [], timeLimitReached := False, pulseStartTime := None,
            hasStarted := False, startTime := None, targetRounds := 0,
            completedRounds := 0\<rparr>)"

text \<open>The assignments of \<^verbatim>\<open>startWithPreset\<close> and \<^verbatim>\<open>startWithRounds\<close> before their first tick.\<close>

definition startWithPresetInit :: "nat \<Rightarrow> real \<Rightarrow> real \<Rightarrow> state \<Rightarrow> state" where
  "startWithPresetInit minutes tPulse tStart s =
     (let s1 = s\<lparr>timeLimit := toString minutes, targetRounds := 0, completedRounds := 0,
                isPlaying := True, totalTime := 0\<rparr>
      in s1\<lparr>countdown := firstCountdown s1, count := 0, sessionComplete := False,
            timeLimitReached := False, pulseStartTime := Some tPulse, hasStarted := True,
            startTime := Some tStart\<rparr>)"

definition startWithRoundsInit :: "int \<Rightarrow> real \<Rightarrow> real \<Rightarrow> state \<Rightarrow> state" where
  "startWithRoundsInit rounds tPulse tStart s =
     (let s1 = s\<lparr>targetRounds := rounds, completedRounds := 0, timeLimit := [],
                isPlaying := True, totalTime := 0\<rparr>
      in s1\<lparr>countdown := firstCountdown s1, count := 0, sessionComplete := False,
            timeLimitReached := False, pulseStartTime := Some tPulse, hasStarted := True,
            startTime := Some tStart\<rparr>)"

subsection \<open>Settings handlers\<close>

definition toggleSound :: "state \<Rightarrow> state" where
  "toggleSound s = s\<lparr>soundEnabled := \<not> soundEnabled s\<rparr>"

definition toggleCountdown :: "state \<Rightarrow> state" where
  "toggleCountdown s = s\<lparr>countdownEnabled := \<not> countdownEnabled s\<rparr>"

definition handleTimeLimitChange :: "string \<Rightarrow> state \<Rightarrow> state" where
  "handleTimeLimitChange v s = s\<lparr>timeLimit := stripNonDigits v\<rparr>"

text \<open>
  \<^verbatim>\<open>setExerciseType\<close> reads \<^verbatim>\<open>phaseTimeRange.default\<close> only for an entry with a slider and
  for \<^verbatim>\<open>longExhale\<close>, which all have a range; the \<^term>\<open>None\<close> branches are never taken.
\<close>

definition setExerciseType :: "exercise \<Rightarrow> state \<Rightarrow> state" where
  "setExerciseType ty s =
     (let s1 = s\<lparr>exerciseType := ty\<rparr>;
          s2 = (if hasPhaseTimeSlider ty
                then (case phaseTimeDefault ty of Some d \<Rightarrow> s1\<lparr>phaseTime := d\<rparr> | None \<Rightarrow> s1)
                else s1)
      in if ty = longExhale
         then (case phaseTimeDefault ty of Some d \<Rightarrow> s2\<lparr>exhaleDuration := d\<rparr> | None \<Rightarrow> s2)
         else s2)"

text \<open>The \<^verbatim>\<open>input\<close> listener of the phase-time slider.\<close>

definition phaseTimeSliderInput :: "real \<Rightarrow> state \<Rightarrow> state" where
  "phaseTimeSliderInput v s =
     (if exerciseType s = longExhale then s\<lparr>exhaleDuration := v\<rparr> else s\<lparr>phaseTime := v\<rparr>)"

subsection \<open>The per-frame tick\<close>

text \<open>
  The phase lookup loop of \<^verbatim>\<open>animate\<close>: \<open>i\<close> is the loop index, \<open>accumulatedTime\<close> the
  running sum, and the result is the pair \<^verbatim>\<open>(newCount, phaseStartTime)\<close>. When the loop
  ends without a \<^verbatim>\<open>break\<close> both variables keep their initial value 0.
\<close>

fun phaseLoop :: "phase list \<Rightarrow> nat \<Rightarrow> real \<Rightarrow> real \<Rightarrow> nat \<times> real" where
  "phaseLoop [] i accumulatedTime cycleElapsed = (0, 0)"
| "phaseLoop (p # ps) i accumulatedTime cycleElapsed =
     (if cycleElapsed \<ge> accumulatedTime \<and> cycleElapsed < accumulatedTime + duration p
      then (i, accumulatedTime)
      else phaseLoop ps (Suc i) (accumulatedTime + duration p) cycleElapsed)"

text \<open>With \<^verbatim>\<open>cycleElapsed = NaN\<close> every comparison of the loop is false.\<close>

definition findPhase :: "phase list \<Rightarrow> real option \<Rightarrow> nat \<times> real" where
  "findPhase phases cycleElapsed =
     (case cycleElapsed of None \<Rightarrow> (0, 0) | Some c \<Rightarrow> phaseLoop phases 0 0 c)"

text \<open>\<^verbatim>\<open>cycleElapsed\<close> as \<^verbatim>\<open>animate\<close> computes it from the two timestamps (milliseconds).\<close>

definition cyclePosition :: "phase list \<Rightarrow> real \<Rightarrow> real \<Rightarrow> real option" where
  "cyclePosition phases start now = js_rem ((now - start) / 1000) (totalDuration phases)"

text \<open>
  The countdown of a tick, from \<^verbatim>\<open>currentPhaseDuration\<close> and \<^verbatim>\<open>phaseElapsed\<close>
  (\<^verbatim>\<open>hasHalfSecond\<close>, \<^verbatim>\<open>remaining\<close>, \<^verbatim>\<open>newCountdown\<close>).
\<close>

definition countdownValue :: "real \<Rightarrow> real \<Rightarrow> real" where
  "countdownValue currentPhaseDuration phaseElapsed =
     (let remaining = currentPhaseDuration - phaseElapsed;
          hasHalfSecond = (js_rem currentPhaseDuration 1 \<noteq> Some 0)
      in if hasHalfSecond \<and> remaining > of_int \<lfloor>currentPhaseDuration\<rfloor>
         then currentPhaseDuration
         else of_int \<lceil>remaining\<rceil>)"

text \<open>The block that ends a session (it occurs twice in \<^verbatim>\<open>animate\<close>).\<close>

definition endSession :: "state \<Rightarrow> state" where
  "endSession s = s\<lparr>sessionComplete := True, isPlaying := False, hasStarted := False\<rparr>"

text \<open>\<^verbatim>\<open>now - state.startTime\<close>: a \<^verbatim>\<open>null\<close> start time counts as 0.\<close>

definition startOf :: "state \<Rightarrow> real" where
  "startOf s = (case startTime s of None \<Rightarrow> 0 | Some t \<Rightarrow> t)"

text \<open>
  \<^verbatim>\<open>animate\<close>, with \<open>now\<close> the reading of \<^verbatim>\<open>performance.now()\<close>. The assignments guarded
  by ``if the value differs'' are plain assignments here; \<^verbatim>\<open>progress\<close> and \<^verbatim>\<open>needsRender\<close>
  only feed the canvas and the DOM and are left out. The states \<open>s1\<close> to \<open>s7\<close> follow
  the order of the assignments.
\<close>

definition animate :: "real \<Rightarrow> state \<Rightarrow> state" where
  "animate now s =
     (if \<not> isPlaying s then s
      else
        let phases = getCurrentPhases s;
            totalElapsed = (now - startOf s) / 1000;
            newTotalTime = \<lfloor>totalElapsed\<rfloor>;
            cycleElapsed = js_rem totalElapsed (getTotalCycleTime s);
            newCount = fst (findPhase phases cycleElapsed);
            phaseStartTime = snd (findPhase phases cycleElapsed);
            currentPhaseDuration = duration (phases ! newCount);
            newCountdown =
              map_option (\<lambda>c. countdownValue currentPhaseDuration (c - phaseStartTime)) cycleElapsed;
            s1 = s\<lparr>totalTime := newTotalTime\<rparr>;
            s2 = (if timeLimit s1 \<noteq> [] \<and> \<not> timeLimitReached s1 \<and> totalTime s1 \<ge> timeLimitSeconds s1
                  then s1\<lparr>timeLimitReached := True\<rparr> else s1);
            previousCount = count s2;
            s3 = s2\<lparr>count := newCount\<rparr>;
            wrapped = (int previousCount = int (length phases) - 1 \<and> newCount = 0);
            s4 =
              (if count s3 \<noteq> previousCount then
                 let s5 = s3\<lparr>pulseStartTime := Some now\<rparr>;
                     s6 = (if wrapped then
                             let s7 = s5\<lparr>completedRounds := completedRounds s5 + 1\<rparr>
                             in if exerciseType s7 = fourSevenEight \<and> targetRounds s7 > 0
                                   \<and> completedRounds s7 \<ge> targetRounds s7
                                then endSession s7 else s7
                           else s5)
                 in if wrapped \<and> timeLimitReached s6 then endSession s6 else s6
               else s3)
        in s4\<lparr>countdown := newCountdown\<rparr>)"

text \<open>A sequence of frames, oldest first.\<close>

definition ticks :: "real list \<Rightarrow> state \<Rightarrow> state" where
  "ticks ts s = fold animate ts s"

subsection \<open>The handlers with their first tick\<close>

text \<open>
  Each start handler calls \<^verbatim>\<open>animate()\<close> itself after its assignments; \<open>tNow\<close> is the
  reading of \<^verbatim>\<open>performance.now()\<close> inside that call.
\<close>

definition togglePlay :: "real \<Rightarrow> real \<Rightarrow> real \<Rightarrow> state \<Rightarrow> state" where
  "togglePlay tPulse tStart tNow s =
     (if \<not> isPlaying s then animate tNow (togglePlayStart tPulse tStart s)
      else togglePlayStop s)"

definition startWithPreset :: "nat \<Rightarrow> real \<Rightarrow> real \<Rightarrow> real \<Rightarrow> state \<Rightarrow> state" where
  "startWithPreset minutes tPulse tStart tNow s =
     animate tNow (startWithPresetInit minutes tPulse tStart s)"

definition startWithRounds :: "int \<Rightarrow> real \<Rightarrow> real \<Rightarrow> real \<Rightarrow> state \<Rightarrow> state" where
  "startWithRounds rounds tPulse tStart tNow s =
     animate tNow (startWithRoundsInit rounds tPulse tStart s)"

subsection \<open>The session state machine\<close>

datatype event =
    TogglePlay real real real
  | ResetToStart
  | StartWithPreset nat real real real
  | StartWithRounds int real real real
  | Frame real
  | ToggleSound
  | ToggleCountdown
  | TimeLimitInput string
  | SetExerciseType exercise
  | SliderInput real

fun apply_event :: "event \<Rightarrow> state \<Rightarrow> state" where
  "apply_event (TogglePlay tp ts tn) s = togglePlay tp ts tn s"
| "apply_event ResetToStart s = resetToStart s"
| "apply_event (StartWithPreset m tp ts tn) s = startWithPreset m tp ts tn s"
| "apply_event (StartWithRounds r tp ts tn) s = startWithRounds r tp ts tn s"
| "apply_event (Frame now) s = animate now s"
| "apply_event ToggleSound s = toggleSound s"
| "apply_event ToggleCountdown s = toggleCountdown s"
| "apply_event (TimeLimitInput v) s = handleTimeLimitChange v s"
| "apply_event (SetExerciseType ty) s = setExerciseType ty s"
| "apply_event (SliderInput v) s = phaseTimeSliderInput v s"

text \<open>
  Which listeners \<^verbatim>\<open>render\<close> attaches: the play button unless the session is complete,
  the reset button only when it is, the settings controls and the preset buttons only
  when idle; the preset buttons are the round presets 4, 6, 8 for the 4-7-8 pattern and
  the minute presets 2, 5, 10 for the others. A frame callback may always arrive.
\<close>

definition idle :: "state \<Rightarrow> bool" where
  "idle s = (\<not> isPlaying s \<and> \<not> sessionComplete s)"

fun enabled :: "state \<Rightarrow> event \<Rightarrow> bool" where
  "enabled s (TogglePlay tp ts tn) = (\<not> sessionComplete s)"
| "enabled s ResetToStart = sessionComplete s"
| "enabled s (StartWithPreset m tp ts tn) =
     (idle s \<and> exerciseType s \<noteq> fourSevenEight \<and> m \<in> set [2, 5, 10])"
| "enabled s (StartWithRounds r tp ts tn) =
     (idle s \<and> exerciseType s = fourSevenEight \<and> r \<in> set [4, 6, 8])"
| "enabled s (Frame now) = True"
| "enabled s ToggleSound = idle s"
| "enabled s ToggleCountdown = idle s"
| "enabled s (TimeLimitInput v) = idle s"
| "enabled s (SetExerciseType ty) = idle s"
| "enabled s (SliderInput v) = idle s"

inductive reachable :: "state \<Rightarrow> bool" where
  reachable_init: "reachable (loadSettings sound cnt ty pt ex initialState)"
| reachable_step: "reachable s \<Longrightarrow> enabled s e \<Longrightarrow> reachable (apply_event e s)"

text \<open>
  Running a list of events, oldest first, refusing a list in which some event has no
  listener attached when it arrives: \<^term>\<open>None\<close> means the list cannot happen.
\<close>

fun runEnabled :: "event list \<Rightarrow> state \<Rightarrow> state option" where
  "runEnabled [] s = Some s"
| "runEnabled (e # es) s = (if enabled s e then runEnabled es (apply_event e s) else None)"

subsection \<open>Vocabulary of the specification\<close>




text \<open>The floored total elapsed seconds of a tick at time \<open>now\<close>.\<close>

definition elapsedSeconds :: "state \<Rightarrow> real \<Rightarrow> int" where
  "elapsedSeconds s now = \<lfloor>(now - startOf s) / 1000\<rfloor>"

text \<open>The phase index a tick at time \<open>now\<close> computes.\<close>

definition tickIndex :: "state \<Rightarrow> real \<Rightarrow> nat" where
  "tickIndex s now =
     fst (findPhase (getCurrentPhases s) (cyclePosition (getCurrentPhases s) (startOf s) now))"

text \<open>
  A phase wraparound: the tick at time \<open>now\<close> moves the index from the last phase to
  phase 0 (and the index changes, so the last phase is not phase 0).
\<close>

definition wraps :: "state \<Rightarrow> real \<Rightarrow> bool" where
  "wraps s now =
     (int (count s) = int (length (getCurrentPhases s)) - 1 \<and> tickIndex s now = 0 \<and> count s \<noteq> 0)"

text \<open>Round-target mode: the round-based pattern with a positive target.\<close>

definition roundTargetMode :: "state \<Rightarrow> bool" where
  "roundTargetMode s = (exerciseType s = fourSevenEight \<and> targetRounds s > 0)"

text \<open>The round that a wraparound is about to complete reaches the target.\<close>

definition roundTargetMet :: "state \<Rightarrow> bool" where
  "roundTargetMet s = (roundTargetMode s \<and> completedRounds s + 1 \<ge> targetRounds s)"

text \<open>Time-limit mode: a time limit is entered and no round target is in effect.\<close>

definition timeLimitMode :: "state \<Rightarrow> bool" where
  "timeLimitMode s = (timeLimit s \<noteq> [] \<and> \<not> roundTargetMode s)"

text \<open>
  What the start handlers and the ticks keep true of the two targets in every reachable
  state: an idle state has no round target and no time-limit flag, and the round
  target and the time limit are both set only for the 4-7-8 pattern, where the target
  is the number read from the time-limit string.
\<close>

definition targetsInv :: "state \<Rightarrow> bool" where
  "targetsInv s =
     ((isPlaying s \<or> sessionComplete s \<or> (targetRounds s = 0 \<and> timeLimitReached s = False))
      \<and> (targetRounds s = 0 \<or> timeLimit s = []
          \<or> (exerciseType s = fourSevenEight \<and> targetRounds s = parseIntOr0 (timeLimit s))))"

subsection \<open>An example session\<close>

text \<open>
  The 4-7-8 pattern is selected, 3 is typed into the field labelled ``Rounds'' and the
  start button is pressed at time 0.
\<close>

definition typedRoundsSession :: state where
  "typedRoundsSession =
     togglePlay 0 0 0 (handleTimeLimitChange ''3'' (setExerciseType fourSevenEight initialState))"

section \<open>What one tick does to each field\<close>

lemma timeLimitSeconds_totalTime: "timeLimitSeconds (s\<lparr>totalTime := x\<rparr>) = timeLimitSeconds s"
  by (simp add: timeLimitSeconds_def)

lemmas animate_unfold = animate_def Let_def endSession_def getTotalCycleTime_def timeLimitSeconds_totalTime
  tickIndex_def wraps_def elapsedSeconds_def cyclePosition_def roundTargetMet_def roundTargetMode_def

lemma animate_frame:
  "exerciseType (animate now s) = exerciseType s"
  "phaseTime (animate now s) = phaseTime s"
  "exhaleDuration (animate now s) = exhaleDuration s"
  "timeLimit (animate now s) = timeLimit s"
  "targetRounds (animate now s) = targetRounds s"
  "startTime (animate now s) = startTime s"
  "soundEnabled (animate now s) = soundEnabled s"
  "countdownEnabled (animate now s) = countdownEnabled s"
  by (simp_all add: animate_def Let_def endSession_def)

lemma animate_timeLimitReached:
  "timeLimitReached (animate now s) =
     (timeLimitReached s \<or> (isPlaying s \<and> timeLimit s \<noteq> [] \<and> timeLimitSeconds s \<le> elapsedSeconds s now))"
  by (auto simp add: animate_unfold)

lemma animate_count:
  "count (animate now s) = (if isPlaying s then tickIndex s now else count s)"
  by (simp add: animate_unfold)

lemma animate_completedRounds:
  "completedRounds (animate now s) = (if isPlaying s \<and> wraps s now then completedRounds s + 1 else completedRounds s)"
  by (auto simp add: animate_unfold)

lemma animate_sessionComplete:
  "sessionComplete (animate now s) =
     (sessionComplete s \<or> (isPlaying s \<and> wraps s now \<and> (roundTargetMet s \<or> timeLimitReached (animate now s))))"
  unfolding animate_timeLimitReached
  by (auto simp add: animate_unfold)

lemma animate_isPlaying:
  "isPlaying (animate now s) =
     (isPlaying s \<and> \<not> (wraps s now \<and> (roundTargetMet s \<or> timeLimitReached (animate now s))))"
  unfolding animate_timeLimitReached
  by (auto simp add: animate_unfold)

lemma animate_countdown:
  "countdown (animate now s) =
     (if isPlaying s then
        map_option (\<lambda>c. countdownValue (duration (getCurrentPhases s ! tickIndex s now))
              (c - snd (findPhase (getCurrentPhases s) (cyclePosition (getCurrentPhases s) (startOf s) now))))
          (cyclePosition (getCurrentPhases s) (startOf s) now)
      else countdown s)"
  by (simp add: animate_unfold)

lemma animate_getCurrentPhases: "getCurrentPhases (animate now s) = getCurrentPhases s"
  by (simp add: getCurrentPhases_def animate_frame)

lemma animate_startOf: "startOf (animate now s) = startOf s"
  by (simp add: startOf_def animate_frame)

lemma ticks_snoc: "ticks (ts @ [t]) s = animate t (ticks ts s)"
  by (simp add: ticks_def)

lemma ticks_frame:
  "exerciseType (ticks ts s) = exerciseType s \<and> timeLimit (ticks ts s) = timeLimit s
   \<and> targetRounds (ticks ts s) = targetRounds s \<and> getCurrentPhases (ticks ts s) = getCurrentPhases s
   \<and> startOf (ticks ts s) = startOf s"
proof (induction ts rule: rev_induct)
  case Nil
  show ?case by (simp add: ticks_def)
next
  case (snoc t ts)
  then show ?case
    by (simp add: ticks_snoc animate_frame animate_getCurrentPhases animate_startOf)
qed

lemma ticks_elapsedSeconds: "elapsedSeconds (ticks ts s) t = elapsedSeconds s t"
  by (simp add: elapsedSeconds_def ticks_frame)

lemma ticks_timeLimitSeconds: "timeLimitSeconds (ticks ts s) = timeLimitSeconds s"
  by (simp add: timeLimitSeconds_def ticks_frame)

lemma ticks_roundTargetMode: "roundTargetMode (ticks ts s) = roundTargetMode s"
  by (simp add: roundTargetMode_def ticks_frame)

lemma ticks_playing_iff:
  assumes "isPlaying s" "\<not> sessionComplete s"
  shows "isPlaying (ticks ts s) = (\<not> sessionComplete (ticks ts s))"
proof (induction ts rule: rev_induct)
  case Nil
  from assms show ?case by (simp add: ticks_def)
next
  case (snoc t ts)
  then show ?case
    by (auto simp add: ticks_snoc animate_isPlaying animate_sessionComplete)
qed

lemma ticks_complete_reached:
  assumes "\<not> roundTargetMode s" "\<not> sessionComplete s"
  shows "sessionComplete (ticks ts s) \<Longrightarrow> timeLimitReached (ticks ts s)"
proof (induction ts rule: rev_induct)
  case Nil
  with assms show ?case by (simp add: ticks_def)
next
  case (snoc t ts)
  have "\<not> roundTargetMet (ticks ts s)"
    using assms(1) by (simp add: roundTargetMet_def ticks_roundTargetMode)
  with snoc show ?case
    by (auto simp add: ticks_snoc animate_sessionComplete animate_timeLimitReached)
qed

lemma ticks_reached_iff:
  assumes "isPlaying s" "timeLimitMode s" "\<not> sessionComplete s"
  shows "timeLimitReached (ticks ts s) =
          (timeLimitReached s \<or> (\<exists>t \<in> set ts. timeLimitSeconds s \<le> elapsedSeconds s t))"
proof (induction ts rule: rev_induct)
  case Nil
  show ?case by (simp add: ticks_def)
next
  case (snoc t ts)
  have nr: "\<not> roundTargetMode s" and tl: "timeLimit s \<noteq> []"
    using assms(2) by (simp_all add: timeLimitMode_def)
  have pl: "isPlaying (ticks ts s) = (\<not> sessionComplete (ticks ts s))"
    using assms(1,3) by (rule ticks_playing_iff)
  have cr: "sessionComplete (ticks ts s) \<Longrightarrow> timeLimitReached (ticks ts s)"
    using nr assms(3) by (rule ticks_complete_reached)
  show ?case
    using snoc pl cr tl
    by (auto simp add: ticks_snoc animate_timeLimitReached ticks_elapsedSeconds
        ticks_timeLimitSeconds ticks_frame)
qed

text \<open>Unfolding set for evaluating the handlers on concrete states.\<close>

lemmas eval_defs = togglePlay_def togglePlayStart_def togglePlayStop_def handleTimeLimitChange_def
  setExerciseType_def phaseTimeSliderInput_def initialState_def firstCountdown_def getCurrentPhases_def
  stripNonDigits_def isDigit_def parseIntOr0_def parseInt_def isWhiteSpace_def digitValue_def
  animate_def Let_def getTotalCycleTime_def totalDuration_def startOf_def js_rem_def js_trunc_def
  findPhase_def timeLimitSeconds_def countdownValue_def endSession_def ticks_def
  timeLimitMode_def roundTargetMode_def wraps_def tickIndex_def cyclePosition_def elapsedSeconds_def
  idle_def startWithPreset_def startWithPresetInit_def startWithRounds_def startWithRoundsInit_def
  resetToStart_def toggleSound_def toggleCountdown_def

section \<open>Time-limit sessions\<close>

text \<open>
  Claim C4. In time-limit mode (a time limit is entered, no round target in effect), for
  every sequence of ticks \<open>ts\<close> of a playing session: the flag \<^verbatim>\<open>timeLimitReached\<close> is
  set after the ticks exactly when it was set before or some tick of the sequence saw
  floored elapsed seconds at or above the limit in seconds, so it becomes true at the
  first such tick; the session keeps playing as long as it is not complete, so setting
  the flag alone does not end it; and a further tick \<open>t\<close> completes the session exactly
  when that tick is a wraparound from the last phase to phase 0 and the flag is true
  at it, never in the middle of a cycle.
\<close>

theorem time_limit_grace:
  assumes "isPlaying s" "timeLimitMode s" "\<not> sessionComplete s"
  shows "timeLimitReached (ticks ts s) =
           (timeLimitReached s \<or> (\<exists>t \<in> set ts. timeLimitSeconds s \<le> elapsedSeconds s t))
       \<and> isPlaying (ticks ts s) = (\<not> sessionComplete (ticks ts s))
       \<and> sessionComplete (ticks (ts @ [t]) s) =
           (sessionComplete (ticks ts s)
            \<or> (wraps (ticks ts s) t \<and> timeLimitReached (ticks (ts @ [t]) s)))"
proof -
  have nr: "\<not> roundTargetMet (ticks ts s)"
    using assms(2) by (simp add: timeLimitMode_def roundTargetMet_def ticks_roundTargetMode)
  have pl: "isPlaying (ticks ts s) = (\<not> sessionComplete (ticks ts s))"
    using assms(1,3) by (rule ticks_playing_iff)
  have c: "sessionComplete (ticks (ts @ [t]) s) =
           (sessionComplete (ticks ts s)
            \<or> (wraps (ticks ts s) t \<and> timeLimitReached (ticks (ts @ [t]) s)))"
    using nr pl by (auto simp add: ticks_snoc animate_sessionComplete)
  show ?thesis
    using ticks_reached_iff[OF assms] pl c by blast
qed

text \<open>
  The example of the specification: box breathing (cycle of 16 s) with a limit of one
  minute. The flag is clear at 59 s, set at 60 s, the session still plays at 63 s and is
  complete at the wraparound at 64 s.
\<close>

theorem time_limit_grace_witness:
  "isPlaying (togglePlay 0 0 0 (handleTimeLimitChange ''1'' initialState))
   \<and> timeLimitMode (togglePlay 0 0 0 (handleTimeLimitChange ''1'' initialState))
   \<and> \<not> sessionComplete (togglePlay 0 0 0 (handleTimeLimitChange ''1'' initialState))
   \<and> \<not> timeLimitReached (ticks [59000] (togglePlay 0 0 0 (handleTimeLimitChange ''1'' initialState)))
   \<and> timeLimitReached (ticks [59000, 60000] (togglePlay 0 0 0 (handleTimeLimitChange ''1'' initialState)))
   \<and> isPlaying (ticks [59000, 60000, 63000] (togglePlay 0 0 0 (handleTimeLimitChange ''1'' initialState)))
   \<and> sessionComplete (ticks ([59000, 60000, 63000] @ [64000]) (togglePlay 0 0 0 (handleTimeLimitChange ''1'' initialState)))"
proof -
  define s0 where "s0 = togglePlay 0 0 0 (handleTimeLimitChange ''1'' initialState)"
  have s0: "s0 = \<lparr>isPlaying = True, count = 0, countdown = Some 4, totalTime = 0,
      soundEnabled = False, countdownEnabled = False, timeLimit = ''1'',
      sessionComplete = False, timeLimitReached = False, phaseTime = 4,
      exhaleDuration = 6, exerciseType = box, pulseStartTime = Some 0,
      hasStarted = True, startTime = Some 0, targetRounds = 0, completedRounds = 0\<rparr>"
    unfolding s0_def by (simp add: eval_defs)
  have h1: "isPlaying s0" and h2: "timeLimitMode s0" and h3: "\<not> sessionComplete s0"
    by (simp_all add: s0 timeLimitMode_def roundTargetMode_def)
  have lim: "timeLimitSeconds s0 = 60" by (simp add: s0 timeLimitSeconds_def parseInt_def isWhiteSpace_def digitValue_def)
  have el: "\<And>t. elapsedSeconds s0 t = \<lfloor>t / 1000\<rfloor>" by (simp add: s0 elapsedSeconds_def startOf_def)
  have nr: "\<not> timeLimitReached s0" by (simp add: s0)
  have w: "wraps (ticks [59000, 60000, 63000] s0) 64000"
    by (simp add: s0 eval_defs)
  note g = time_limit_grace[OF h1 h2 h3]
  have a: "\<not> timeLimitReached (ticks [59000] s0)" using g[of "[59000]" 0] by (simp add: lim el nr)
  have b: "timeLimitReached (ticks [59000, 60000] s0)" using g[of "[59000, 60000]" 0] by (simp add: lim el nr)
  have c: "timeLimitReached (ticks ([59000, 60000, 63000] @ [64000]) s0)" using g[of "[59000, 60000, 63000, 64000]" 0] by (simp add: lim el nr)
  have d: "sessionComplete (ticks ([59000, 60000, 63000] @ [64000]) s0)" using g[of "[59000, 60000, 63000]" 64000] w c by blast
  have e: "isPlaying (ticks [59000, 60000, 63000] s0)" by (simp add: s0 eval_defs)
  show ?thesis using h1 h2 h3 a b d e unfolding s0_def by blast
qed

section \<open>The phase index is valid\<close>

lemma getPhases_Cons: "\<exists>p ps. getPhases ty a b = p # ps"
  by (cases ty) simp_all

lemma getCurrentPhases_nonempty: "getCurrentPhases s \<noteq> []"
  using getPhases_Cons[of "exerciseType s" "phaseTime s" "exhaleDuration s"]
  by (auto simp add: getCurrentPhases_def)

lemma phaseLoop_index:
  "fst (phaseLoop ps i acc c) = 0 \<or> (i \<le> fst (phaseLoop ps i acc c) \<and> fst (phaseLoop ps i acc c) < i + length ps)"
proof (induction ps arbitrary: i acc)
  case Nil
  show ?case by simp
next
  case (Cons p ps)
  from Cons[of "Suc i" "acc + duration p"] show ?case by auto
qed

lemma findPhase_index:
  assumes ne: "phases \<noteq> []"
  shows "fst (findPhase phases ce) < length phases"
proof (cases ce)
  case None
  then show ?thesis using ne by (simp add: findPhase_def)
next
  case (Some c)
  with phaseLoop_index[of phases 0 0 c] ne show ?thesis
    by (auto simp add: findPhase_def)
qed

text \<open>
  Claim C8. For every non-empty phase list, the phase index that a tick computes from a
  start time and a current time is a valid index of the list, \<open>0 \<le> index < length\<close>.
  The bound needs neither a positive cycle duration nor \<open>now \<ge> startTime\<close>: when the
  loop matches nothing (and when the cycle position is \<^verbatim>\<open>NaN\<close>) the index stays 0. The
  last two conjuncts tie the lookup to \<^verbatim>\<open>animate\<close>: for the pattern of the state the
  index is valid, and it is what a tick stores in \<^verbatim>\<open>state.count\<close>.
\<close>

theorem phase_index_valid:
  assumes "phases \<noteq> []"
  shows "fst (findPhase phases (cyclePosition phases start now)) < length phases
       \<and> tickIndex s now < length (getCurrentPhases s)
       \<and> count (animate now s) = (if isPlaying s then tickIndex s now else count s)"
  using assms by (simp add: findPhase_index tickIndex_def getCurrentPhases_nonempty animate_count)

text \<open>Box breathing, nine seconds after the start: the third phase, index 2 of 4.\<close>

theorem phase_index_valid_witness:
  "getPhases box 4 6 \<noteq> []
   \<and> fst (findPhase (getPhases box 4 6) (cyclePosition (getPhases box 4 6) 0 9000)) = 2
   \<and> fst (findPhase (getPhases box 4 6) (cyclePosition (getPhases box 4 6) 0 9000)) < length (getPhases box 4 6)"
proof -
  have ne: "getPhases box 4 6 \<noteq> []" by simp
  have v: "fst (findPhase (getPhases box 4 6) (cyclePosition (getPhases box 4 6) 0 9000)) = 2"
    by (simp add: findPhase_def cyclePosition_def totalDuration_def js_rem_def js_trunc_def)
  from phase_index_valid[OF ne, of 0 9000] ne v show ?thesis by simp
qed

section \<open>Reset\<close>

text \<open>
  Claim C7. From every prior state, \<^verbatim>\<open>resetToStart\<close> sets the completed rounds, the
  time-limit flag, the round target, the time limit and the total elapsed time to their
  zero or empty values and returns to the idle state (not playing, not started, not
  complete, no start time, phase 0), and leaves the exercise type, both phase-duration
  parameters and the sound and countdown toggles as they were.
\<close>

theorem reset_clears_runtime_keeps_config:
  "completedRounds (resetToStart s) = 0
   \<and> timeLimitReached (resetToStart s) = False
   \<and> targetRounds (resetToStart s) = 0
   \<and> timeLimit (resetToStart s) = []
   \<and> totalTime (resetToStart s) = 0
   \<and> isPlaying (resetToStart s) = False
   \<and> hasStarted (resetToStart s) = False
   \<and> sessionComplete (resetToStart s) = False
   \<and> startTime (resetToStart s) = None
   \<and> count (resetToStart s) = 0
   \<and> exerciseType (resetToStart s) = exerciseType s
   \<and> phaseTime (resetToStart s) = phaseTime s
   \<and> exhaleDuration (resetToStart s) = exhaleDuration s
   \<and> soundEnabled (resetToStart s) = soundEnabled s
   \<and> countdownEnabled (resetToStart s) = countdownEnabled s"
  by (simp add: resetToStart_def Let_def)

section \<open>The countdown of a tick\<close>

lemma js_rem_one: "(js_rem d 1 \<noteq> Some 0) = (d \<notin> \<int>)"
proof -
  have "(d = of_int (js_trunc d)) = (d \<in> \<int>)"
  proof
    assume "d = of_int (js_trunc d)"
    then show "d \<in> \<int>" by (metis Ints_of_int)
  next
    assume "d \<in> \<int>"
    then obtain k where "d = of_int k" by (auto elim: Ints_cases)
    then show "d = of_int (js_trunc d)" by (simp add: js_trunc_def)
  qed
  then show ?thesis by (simp add: js_rem_def)
qed

text \<open>
  Claim C6. For a phase of duration \<open>d\<close> and phase-local elapsed time \<open>e\<close>, the countdown
  a tick computes is \<open>d\<close> itself when \<open>d\<close> is not an integer and \<open>d - e\<close> exceeds the
  floor of \<open>d\<close>, and the ceiling of \<open>d - e\<close> otherwise (for every \<open>e\<close>, so in particular
  for \<open>0 \<le> e < d\<close>). A phase of 4.5 s gives 4.5 at \<open>e = 0\<close> and 4 at \<open>e = 0.6\<close>. The last
  conjunct is the tick itself: the countdown it stores is this value for the active
  phase and the time elapsed in it (\<^verbatim>\<open>NaN\<close> when the cycle position is \<^verbatim>\<open>NaN\<close>).
\<close>

theorem countdown_policy:
  "countdownValue d e =
     (if d \<notin> \<int> \<and> d - e > of_int \<lfloor>d\<rfloor> then d else of_int \<lceil>d - e\<rceil>)
   \<and> countdownValue (9 / 2) 0 = 9 / 2
   \<and> countdownValue (9 / 2) (6 / 10) = 4
   \<and> countdown (animate now s) =
       (if isPlaying s then
          map_option (\<lambda>c. countdownValue (duration (getCurrentPhases s ! tickIndex s now))
                (c - snd (findPhase (getCurrentPhases s) (cyclePosition (getCurrentPhases s) (startOf s) now))))
            (cyclePosition (getCurrentPhases s) (startOf s) now)
        else countdown s)"
proof -
  have g: "\<And>d e. countdownValue d e =
     (if d \<notin> \<int> \<and> d - e > of_int \<lfloor>d\<rfloor> then d else of_int \<lceil>d - e\<rceil>)"
    unfolding countdownValue_def Let_def js_rem_one by simp
  have n: "(9 / 2 :: real) \<notin> \<int>"
  proof
    assume "(9 / 2 :: real) \<in> \<int>"
    then obtain k :: int where "(9 / 2 :: real) = of_int k" by (auto elim: Ints_cases)
    then have "(9 :: real) = of_int (2 * k)" by simp
    then have "(9 :: int) = 2 * k" by (metis of_int_eq_iff of_int_numeral)
    then show False by presburger
  qed
  have a: "countdownValue (9 / 2) 0 = 9 / 2" using n by (simp add: g)
  have b: "countdownValue (9 / 2) (6 / 10) = 4" by (simp add: g)
  show ?thesis using g a b animate_countdown by simp
qed

section \<open>Pause\<close>

text \<open>
  Claim C9 fails as stated, in one field. The claim lists the countdown among the
  fields that pausing puts back to their initial values. The initial value of the
  countdown is the 4 of the state literal; pausing sets the ceiling of the first
  phase's duration, which is 5 for box breathing with a phase time of 5 s:
\<close>

theorem pause_countdown_counterexample:
  "isPlaying (togglePlay 0 0 0 (phaseTimeSliderInput 5 initialState))
   \<and> countdown (togglePlay 9000 9000 9000 (togglePlay 0 0 0 (phaseTimeSliderInput 5 initialState))) = Some 5
   \<and> countdown initialState = Some 4"
proof -
  have s: "togglePlay 0 0 0 (phaseTimeSliderInput 5 initialState) =
      \<lparr>isPlaying = True, count = 0, countdown = Some 5, totalTime = 0,
      soundEnabled = False, countdownEnabled = False, timeLimit = [],
      sessionComplete = False, timeLimitReached = False, phaseTime = 5,
      exhaleDuration = 6, exerciseType = box, pulseStartTime = Some 0,
      hasStarted = True, startTime = Some 0, targetRounds = 0, completedRounds = 0\<rparr>"
    by (simp add: eval_defs)
  show ?thesis
    unfolding s
    by (simp add: togglePlay_def togglePlayStop_def Let_def firstCountdown_def getCurrentPhases_def
        initialState_def)
qed

text \<open>
  Claim C9, amended. Pausing (\<^verbatim>\<open>togglePlay\<close> while playing) puts the runtime fields back
  to their initial values: total time 0, phase 0, no completed rounds, no round target,
  both flags and \<^verbatim>\<open>hasStarted\<close> false, no start time; the countdown is set to the ceiling
  of the first phase's duration. Unlike \<^verbatim>\<open>resetToStart\<close>, which empties it, pausing
  leaves the entered \<^verbatim>\<open>timeLimit\<close> string as it is, so the next start works with the same
  string: the same limit in seconds, or, for the 4-7-8 pattern, the string read as a
  round target.
\<close>

theorem pause_keeps_time_limit:
  assumes "isPlaying s"
  shows "totalTime (togglePlay tp ts tn s) = 0
       \<and> count (togglePlay tp ts tn s) = 0
       \<and> countdown (togglePlay tp ts tn s) = Some (of_int \<lceil>duration (getCurrentPhases s ! 0)\<rceil>)
       \<and> completedRounds (togglePlay tp ts tn s) = 0
       \<and> targetRounds (togglePlay tp ts tn s) = 0
       \<and> timeLimitReached (togglePlay tp ts tn s) = False
       \<and> sessionComplete (togglePlay tp ts tn s) = False
       \<and> hasStarted (togglePlay tp ts tn s) = False
       \<and> startTime (togglePlay tp ts tn s) = None
       \<and> isPlaying (togglePlay tp ts tn s) = False
       \<and> timeLimit (togglePlay tp ts tn s) = timeLimit s
       \<and> timeLimit (resetToStart s) = []
       \<and> timeLimit (togglePlay tp' ts' tn' (togglePlay tp ts tn s)) = timeLimit s
       \<and> timeLimitSeconds (togglePlay tp' ts' tn' (togglePlay tp ts tn s)) = timeLimitSeconds s
       \<and> targetRounds (togglePlay tp' ts' tn' (togglePlay tp ts tn s)) =
           (if exerciseType s = fourSevenEight \<and> timeLimit s \<noteq> [] then parseIntOr0 (timeLimit s) else 0)"
proof -
  have stop: "togglePlay tp ts tn s = togglePlayStop s"
    using assms by (simp add: togglePlay_def)
  have np: "\<not> isPlaying (togglePlayStop s)" by (simp add: togglePlayStop_def Let_def)
  have again: "togglePlay tp' ts' tn' (togglePlayStop s) = animate tn' (togglePlayStart tp' ts' (togglePlayStop s))"
    using np by (simp add: togglePlay_def)
  have f: "totalTime (togglePlayStop s) = 0 \<and> count (togglePlayStop s) = 0
      \<and> countdown (togglePlayStop s) = Some (of_int \<lceil>duration (getCurrentPhases s ! 0)\<rceil>)
      \<and> completedRounds (togglePlayStop s) = 0 \<and> targetRounds (togglePlayStop s) = 0
      \<and> timeLimitReached (togglePlayStop s) = False \<and> sessionComplete (togglePlayStop s) = False
      \<and> hasStarted (togglePlayStop s) = False \<and> startTime (togglePlayStop s) = None
      \<and> isPlaying (togglePlayStop s) = False \<and> timeLimit (togglePlayStop s) = timeLimit s"
    by (simp add: togglePlayStop_def Let_def firstCountdown_def getCurrentPhases_def)
  have r: "timeLimit (resetToStart s) = []" by (simp add: resetToStart_def Let_def)
  have g: "timeLimit (togglePlayStart tp' ts' (togglePlayStop s)) = timeLimit s
      \<and> targetRounds (togglePlayStart tp' ts' (togglePlayStop s)) =
           (if exerciseType s = fourSevenEight \<and> timeLimit s \<noteq> [] then parseIntOr0 (timeLimit s) else 0)"
    by (simp add: togglePlayStart_def togglePlayStop_def Let_def)
  show ?thesis
    using f r g by (simp add: stop again animate_frame timeLimitSeconds_def)
qed

text \<open>A session with a limit of five minutes, paused and started again.\<close>

theorem pause_keeps_time_limit_witness:
  "isPlaying (togglePlay 0 0 0 (handleTimeLimitChange ''5'' initialState))
   \<and> timeLimit (togglePlay 9000 9000 9000 (togglePlay 0 0 0 (handleTimeLimitChange ''5'' initialState))) = ''5''
   \<and> targetRounds (togglePlay 9000 9000 9000 (togglePlay 0 0 0 (handleTimeLimitChange ''5'' initialState))) = 0
   \<and> timeLimitSeconds (togglePlay 9500 9500 9500 (togglePlay 9000 9000 9000 (togglePlay 0 0 0 (handleTimeLimitChange ''5'' initialState)))) = 300"
proof -
  define s0 where "s0 = togglePlay 0 0 0 (handleTimeLimitChange ''5'' initialState)"
  have p: "isPlaying s0" and l: "timeLimit s0 = ''5''" and ts: "timeLimitSeconds s0 = 300"
    by (simp_all add: s0_def eval_defs)
  from pause_keeps_time_limit[OF p, of 9000 9000 9000 9500 9500 9500] l ts p
  show ?thesis unfolding s0_def by simp
qed

section \<open>The countdown of a start\<close>

lemma js_rem_small:
  assumes "0 \<le> e" "e < b"
  shows "js_rem e b = Some e"
proof -
  have b: "0 < b" using assms by simp
  then have "0 \<le> e / b" "e / b < 1" using assms by simp_all
  then have "\<lfloor>e / b\<rfloor> = 0" by linarith
  with \<open>0 \<le> e / b\<close> b show ?thesis by (simp add: js_rem_def js_trunc_def)
qed

lemma first_tick_countdown:
  assumes pl: "isPlaying s'" and st: "startOf s' = ts"
    and e0: "0 \<le> (tn - ts) / 1000"
    and e1: "(tn - ts) / 1000 < duration (getCurrentPhases s' ! 0)"
    and tot: "duration (getCurrentPhases s' ! 0) \<le> getTotalCycleTime s'"
  shows "countdown (animate tn s') =
           Some (countdownValue (duration (getCurrentPhases s' ! 0)) ((tn - ts) / 1000))"
proof -
  obtain p ps where ph: "getCurrentPhases s' = p # ps"
    using getCurrentPhases_nonempty[of s'] by (cases "getCurrentPhases s'") auto
  have cp: "cyclePosition (getCurrentPhases s') (startOf s') tn = Some ((tn - ts) / 1000)"
    using js_rem_small[OF e0, of "getTotalCycleTime s'"] e1 tot
    by (simp add: cyclePosition_def st getTotalCycleTime_def)
  have fp: "findPhase (getCurrentPhases s') (Some ((tn - ts) / 1000)) = (0, 0)"
    using e0 e1 by (simp add: findPhase_def ph)
  show ?thesis
    using pl by (simp add: animate_countdown tickIndex_def cp fp)
qed

text \<open>
  Claim C10 fails as stated. The claim says that the countdown shown at the instant
  of a start is the ceiling of the first phase's duration, 5 for coherent breathing at
  4.5 s. Every start handler does assign that ceiling, but it then calls \<^verbatim>\<open>animate\<close>
  itself before it returns and before anything is rendered, and that tick overwrites
  the field with the countdown of the tick. At the instant of the start of the 4.5 s
  pattern the countdown is therefore 4.5:
\<close>

theorem start_countdown_counterexample:
  "duration (getCurrentPhases (phaseTimeSliderInput (9 / 2) (setExerciseType coherent initialState)) ! 0) = 9 / 2
   \<and> isPlaying (phaseTimeSliderInput (9 / 2) (setExerciseType coherent initialState)) = False
   \<and> countdown (togglePlay 0 0 0 (phaseTimeSliderInput (9 / 2) (setExerciseType coherent initialState))) = Some (9 / 2)
   \<and> countdown (togglePlay 0 0 0 (phaseTimeSliderInput (9 / 2) (setExerciseType coherent initialState))) \<noteq> Some 5"
  by (simp add: eval_defs)

text \<open>
  Claim C10, amended. Each of the three start handlers first assigns the ceiling of the first
  phase's duration to the countdown; when its own first tick falls inside the first
  phase (elapsed time \<open>e\<close> with \<open>0 \<le> e < d\<close>, and \<open>d\<close> at most the cycle duration), the
  countdown the handler leaves behind is the tick's value for \<open>d\<close> and \<open>e\<close>.
\<close>

theorem start_countdown_then_first_tick:
  assumes "\<not> isPlaying s"
    and "0 \<le> (tn - ts) / 1000"
    and "(tn - ts) / 1000 < duration (getCurrentPhases s ! 0)"
    and "duration (getCurrentPhases s ! 0) \<le> getTotalCycleTime s"
  shows "countdown (togglePlayStart tp ts s) = Some (of_int \<lceil>duration (getCurrentPhases s ! 0)\<rceil>)
       \<and> countdown (startWithPresetInit m tp ts s) = Some (of_int \<lceil>duration (getCurrentPhases s ! 0)\<rceil>)
       \<and> countdown (startWithRoundsInit r tp ts s) = Some (of_int \<lceil>duration (getCurrentPhases s ! 0)\<rceil>)
       \<and> countdown (togglePlay tp ts tn s) =
           Some (countdownValue (duration (getCurrentPhases s ! 0)) ((tn - ts) / 1000))
       \<and> countdown (startWithPreset m tp ts tn s) =
           Some (countdownValue (duration (getCurrentPhases s ! 0)) ((tn - ts) / 1000))
       \<and> countdown (startWithRounds r tp ts tn s) =
           Some (countdownValue (duration (getCurrentPhases s ! 0)) ((tn - ts) / 1000))"
proof -
  let ?a = "togglePlayStart tp ts s" and ?b = "startWithPresetInit m tp ts s"
    and ?c = "startWithRoundsInit r tp ts s"
  have a: "isPlaying ?a" "startOf ?a = ts" "getCurrentPhases ?a = getCurrentPhases s"
    by (simp_all add: togglePlayStart_def Let_def startOf_def getCurrentPhases_def)
  have b: "isPlaying ?b" "startOf ?b = ts" "getCurrentPhases ?b = getCurrentPhases s"
    by (simp_all add: startWithPresetInit_def Let_def startOf_def getCurrentPhases_def)
  have c: "isPlaying ?c" "startOf ?c = ts" "getCurrentPhases ?c = getCurrentPhases s"
    by (simp_all add: startWithRoundsInit_def Let_def startOf_def getCurrentPhases_def)
  have i1: "countdown ?a = Some (of_int \<lceil>duration (getCurrentPhases s ! 0)\<rceil>)"
    by (simp add: togglePlayStart_def Let_def firstCountdown_def getCurrentPhases_def)
  have i2: "countdown ?b = Some (of_int \<lceil>duration (getCurrentPhases s ! 0)\<rceil>)"
    by (simp add: startWithPresetInit_def Let_def firstCountdown_def getCurrentPhases_def)
  have i3: "countdown ?c = Some (of_int \<lceil>duration (getCurrentPhases s ! 0)\<rceil>)"
    by (simp add: startWithRoundsInit_def Let_def firstCountdown_def getCurrentPhases_def)
  have t1: "countdown (animate tn ?a) =
           Some (countdownValue (duration (getCurrentPhases s ! 0)) ((tn - ts) / 1000))"
    using first_tick_countdown[OF a(1) a(2)] assms(2-4) by (simp add: a(3) getTotalCycleTime_def)
  have t2: "countdown (animate tn ?b) =
           Some (countdownValue (duration (getCurrentPhases s ! 0)) ((tn - ts) / 1000))"
    using first_tick_countdown[OF b(1) b(2)] assms(2-4) by (simp add: b(3) getTotalCycleTime_def)
  have t3: "countdown (animate tn ?c) =
           Some (countdownValue (duration (getCurrentPhases s ! 0)) ((tn - ts) / 1000))"
    using first_tick_countdown[OF c(1) c(2)] assms(2-4) by (simp add: c(3) getTotalCycleTime_def)
  show ?thesis
    using i1 i2 i3 t1 t2 t3 assms(1)
    by (simp add: togglePlay_def startWithPreset_def startWithRounds_def)
qed

text \<open>Coherent breathing at 4.5 s: 5 is assigned, 4.5 is left at \<open>e = 0\<close>, and 4 at \<open>e = 0.6\<close>.\<close>

theorem start_countdown_then_first_tick_witness:
  "isPlaying (phaseTimeSliderInput (9 / 2) (setExerciseType coherent initialState)) = False
   \<and> countdown (togglePlayStart 0 0 (phaseTimeSliderInput (9 / 2) (setExerciseType coherent initialState))) = Some 5
   \<and> countdown (togglePlay 0 0 0 (phaseTimeSliderInput (9 / 2) (setExerciseType coherent initialState))) = Some (9 / 2)
   \<and> countdown (togglePlay 0 0 600 (phaseTimeSliderInput (9 / 2) (setExerciseType coherent initialState))) = Some 4"
proof -
  define s0 where "s0 = phaseTimeSliderInput (9 / 2) (setExerciseType coherent initialState)"
  have d: "duration (getCurrentPhases s0 ! 0) = 9 / 2" and t: "getTotalCycleTime s0 = 9"
    and p: "\<not> isPlaying s0"
    by (simp_all add: s0_def eval_defs)
  have v: "countdownValue (9 / 2) 0 = 9 / 2" "countdownValue (9 / 2) (3 / 5) = 4"
    by (simp_all add: countdownValue_def js_rem_def js_trunc_def)
  have c: "\<lceil>9 / 2 :: real\<rceil> = 5" by simp
  from start_countdown_then_first_tick[of s0 0 0 0 2 4, OF p] d t
  have a: "countdown (togglePlayStart 0 0 s0) = Some 5" "countdown (togglePlay 0 0 0 s0) = Some (9 / 2)"
    by (simp_all add: v)
  from start_countdown_then_first_tick[of s0 600 0 0 2 4, OF p] d t
  have b: "countdown (togglePlay 0 0 600 s0) = Some 4"
    by (simp add: v)
  show ?thesis using a b p unfolding s0_def by simp
qed

section \<open>The phase lookup\<close>










lemma getTotalCycleTime_positive:
  "0 < phaseTime s \<Longrightarrow> 0 < exhaleDuration s \<Longrightarrow> 0 < getTotalCycleTime s"
  by (cases "exerciseType s") (simp_all add: getTotalCycleTime_def getCurrentPhases_def totalDuration_def)



section \<open>Time limit and round target\<close>

lemma animate_idle: "\<not> isPlaying s \<Longrightarrow> animate now s = s"
  by (simp add: animate_def)

lemma animate_not_idle: "isPlaying s \<Longrightarrow> isPlaying (animate now s) \<or> sessionComplete (animate now s)"
  by (auto simp add: animate_isPlaying animate_sessionComplete)

lemma animate_targetsInv:
  assumes "targetsInv s"
  shows "targetsInv (animate now s)"
proof (cases "isPlaying s")
  case True
  from animate_not_idle[OF True, of now] assms show ?thesis
    by (auto simp add: targetsInv_def animate_frame)
next
  case False
  with assms show ?thesis by (simp add: animate_idle)
qed

lemma togglePlayStart_targets:
  "isPlaying (togglePlayStart tp ts s)
   \<and> timeLimit (togglePlayStart tp ts s) = timeLimit s
   \<and> exerciseType (togglePlayStart tp ts s) = exerciseType s
   \<and> targetRounds (togglePlayStart tp ts s) =
       (if exerciseType s = fourSevenEight \<and> timeLimit s \<noteq> [] then parseIntOr0 (timeLimit s) else 0)"
  by (simp add: togglePlayStart_def Let_def)

lemma startWithPresetInit_targets:
  "isPlaying (startWithPresetInit m tp ts s) \<and> targetRounds (startWithPresetInit m tp ts s) = 0
   \<and> timeLimit (startWithPresetInit m tp ts s) = toString m"
  by (simp add: startWithPresetInit_def Let_def)

lemma startWithRoundsInit_targets:
  "isPlaying (startWithRoundsInit r tp ts s) \<and> targetRounds (startWithRoundsInit r tp ts s) = r
   \<and> timeLimit (startWithRoundsInit r tp ts s) = []"
  by (simp add: startWithRoundsInit_def Let_def)

lemma apply_event_targetsInv:
  assumes "targetsInv s" "enabled s e"
  shows "targetsInv (apply_event e s)"
proof (cases e)
  case (TogglePlay tp ts tn)
  show ?thesis
  proof (cases "isPlaying s")
    case True
    then show ?thesis
      by (simp add: TogglePlay togglePlay_def togglePlayStop_def Let_def targetsInv_def)
  next
    case False
    have "targetsInv (togglePlayStart tp ts s)"
      using togglePlayStart_targets[of tp ts s] by (auto simp add: targetsInv_def)
    then show ?thesis
      using False by (simp add: TogglePlay togglePlay_def animate_targetsInv)
  qed
next
  case ResetToStart
  then show ?thesis by (simp add: resetToStart_def Let_def targetsInv_def)
next
  case (StartWithPreset m tp ts tn)
  have "targetsInv (startWithPresetInit m tp ts s)"
    using startWithPresetInit_targets[of m tp ts s] by (simp add: targetsInv_def)
  then show ?thesis
    by (simp add: StartWithPreset startWithPreset_def animate_targetsInv)
next
  case (StartWithRounds r tp ts tn)
  have "targetsInv (startWithRoundsInit r tp ts s)"
    using startWithRoundsInit_targets[of r tp ts s] by (simp add: targetsInv_def)
  then show ?thesis
    by (simp add: StartWithRounds startWithRounds_def animate_targetsInv)
next
  case (Frame now)
  with assms(1) show ?thesis by (simp add: animate_targetsInv)
next
  case ToggleSound
  with assms show ?thesis by (auto simp add: toggleSound_def targetsInv_def idle_def)
next
  case ToggleCountdown
  with assms show ?thesis by (auto simp add: toggleCountdown_def targetsInv_def idle_def)
next
  case (TimeLimitInput v)
  with assms show ?thesis by (auto simp add: handleTimeLimitChange_def targetsInv_def idle_def)
next
  case (SetExerciseType ty)
  with assms show ?thesis
    by (auto simp add: setExerciseType_def Let_def targetsInv_def idle_def split: option.split)
next
  case (SliderInput v)
  with assms show ?thesis by (auto simp add: phaseTimeSliderInput_def targetsInv_def idle_def)
qed

lemma reachable_targetsInv: "reachable s \<Longrightarrow> targetsInv s"
proof (induction rule: reachable.induct)
  case (reachable_init sound cnt ty pt ex)
  show ?case by (simp add: targetsInv_def loadSettings_def initialState_def)
next
  case (reachable_step s e)
  then show ?case by (simp add: apply_event_targetsInv)
qed

lemma reachable_initialState: "reachable initialState"
proof -
  have "loadSettings False False box 4 6 initialState = initialState"
    by (simp add: loadSettings_def initialState_def)
  with reachable_init[of False False box 4 6] show ?thesis by simp
qed

lemma runEnabled_reachable:
  "reachable s \<Longrightarrow> runEnabled es s = Some s' \<Longrightarrow> reachable s'"
proof (induction es arbitrary: s)
  case Nil
  then show ?case by simp
next
  case (Cons e es)
  then show ?case
    by (cases "enabled s e") (auto intro: reachable_step)
qed

lemma typedRoundsSession_value:
  "typedRoundsSession =
     \<lparr>isPlaying = True, count = 0, countdown = Some 4, totalTime = 0,
      soundEnabled = False, countdownEnabled = False, timeLimit = ''3'',
      sessionComplete = False, timeLimitReached = False, phaseTime = 4,
      exhaleDuration = 6, exerciseType = fourSevenEight, pulseStartTime = Some 0,
      hasStarted = True, startTime = Some 0, targetRounds = 3, completedRounds = 0\<rparr>"
  by (simp add: typedRoundsSession_def eval_defs)

lemma typedRoundsSession_run:
  "runEnabled [SetExerciseType fourSevenEight, TimeLimitInput ''3'', TogglePlay 0 0 0] initialState
     = Some typedRoundsSession"
proof -
  have a: "idle initialState" by (simp add: idle_def initialState_def)
  have b: "idle (setExerciseType fourSevenEight initialState)"
    by (simp add: idle_def initialState_def setExerciseType_def)
  have c: "\<not> sessionComplete (handleTimeLimitChange ''3'' (setExerciseType fourSevenEight initialState))"
    by (simp add: initialState_def setExerciseType_def handleTimeLimitChange_def)
  show ?thesis using a b c by (simp add: typedRoundsSession_def)
qed

lemma typedRoundsSession_reachable: "reachable typedRoundsSession"
  using runEnabled_reachable[OF reachable_initialState typedRoundsSession_run] .

text \<open>
  Claim C2 fails as stated. The claim says that after every start and throughout a
  playing session a positive round target comes with an empty time limit. For the
  4-7-8 pattern \<^verbatim>\<open>togglePlay\<close> reads the time-limit string as the round count and keeps
  the string (``treat timeLimit as rounds instead of minutes''), so both are set:
\<close>

theorem targets_exclusive_counterexample:
  "runEnabled [SetExerciseType fourSevenEight, TimeLimitInput ''3'', TogglePlay 0 0 0] initialState
     = Some typedRoundsSession
   \<and> isPlaying typedRoundsSession
   \<and> targetRounds typedRoundsSession = 3
   \<and> timeLimit typedRoundsSession = ''3''"
  using typedRoundsSession_run by (simp add: typedRoundsSession_value)

text \<open>
  Claim C2, amended. In every reachable state, so after every start and throughout
  every playing session: the round target is 0, or the time limit is empty, or the pattern
  is 4-7-8 and the round target is the number \<^verbatim>\<open>parseInt\<close> reads from the time-limit
  string. Start by start: \<^verbatim>\<open>startWithPreset\<close> leaves the round target 0 and the minutes
  as the time limit; \<^verbatim>\<open>startWithRounds\<close> leaves the time limit empty and the rounds as
  the target; \<^verbatim>\<open>togglePlay\<close> keeps the time limit and, when it starts a session, sets the
  target from it for the 4-7-8 pattern and to 0 otherwise; a tick changes neither.
\<close>

theorem targets_of_start_and_reachable_states:
  assumes "reachable s"
  shows "(targetRounds s = 0 \<or> timeLimit s = []
          \<or> (exerciseType s = fourSevenEight \<and> targetRounds s = parseIntOr0 (timeLimit s)))
       \<and> targetRounds (startWithPreset m tp ts tn s) = 0
       \<and> timeLimit (startWithPreset m tp ts tn s) = toString m
       \<and> timeLimit (startWithRounds r tp ts tn s) = []
       \<and> targetRounds (startWithRounds r tp ts tn s) = r
       \<and> timeLimit (togglePlay tp ts tn s) = timeLimit s
       \<and> targetRounds (togglePlay tp ts tn s) =
           (if isPlaying s then 0
            else if exerciseType s = fourSevenEight \<and> timeLimit s \<noteq> [] then parseIntOr0 (timeLimit s)
            else 0)
       \<and> targetRounds (animate now s) = targetRounds s
       \<and> timeLimit (animate now s) = timeLimit s"
proof -
  have i: "targetRounds s = 0 \<or> timeLimit s = []
          \<or> (exerciseType s = fourSevenEight \<and> targetRounds s = parseIntOr0 (timeLimit s))"
    using reachable_targetsInv[OF assms] by (simp add: targetsInv_def)
  have t: "timeLimit (togglePlay tp ts tn s) = timeLimit s
       \<and> targetRounds (togglePlay tp ts tn s) =
           (if isPlaying s then 0
            else if exerciseType s = fourSevenEight \<and> timeLimit s \<noteq> [] then parseIntOr0 (timeLimit s)
            else 0)"
    using togglePlayStart_targets[of tp ts s]
    by (simp add: togglePlay_def animate_frame togglePlayStop_def Let_def)
  show ?thesis
    using i t startWithPresetInit_targets[of m tp ts s] startWithRoundsInit_targets[of r tp ts s]
    by (simp add: startWithPreset_def startWithRounds_def animate_frame)
qed

text \<open>The example session is reachable, and both fields hold the 3 that was typed.\<close>

theorem targets_of_start_and_reachable_states_witness:
  "reachable typedRoundsSession
   \<and> (targetRounds typedRoundsSession = 0 \<or> timeLimit typedRoundsSession = []
          \<or> (exerciseType typedRoundsSession = fourSevenEight
              \<and> targetRounds typedRoundsSession = parseIntOr0 (timeLimit typedRoundsSession)))
   \<and> exerciseType typedRoundsSession = fourSevenEight
   \<and> targetRounds typedRoundsSession = 3
   \<and> parseIntOr0 (timeLimit typedRoundsSession) = 3"
proof -
  have v: "exerciseType typedRoundsSession = fourSevenEight" "targetRounds typedRoundsSession = 3"
    "timeLimit typedRoundsSession = ''3''"
    by (simp_all add: typedRoundsSession_value)
  from targets_of_start_and_reachable_states[OF typedRoundsSession_reachable, of 2 0 0 0 4 0]
  have "parseIntOr0 (timeLimit typedRoundsSession) = 3" by (simp add: v)
  with targets_of_start_and_reachable_states[OF typedRoundsSession_reachable, of 2 0 0 0 4 0]
    typedRoundsSession_reachable v
  show ?thesis by simp
qed

section \<open>The time limit in a session with a round target\<close>

text \<open>
  Two facts that hold. In reachable states the time-limit flag goes from true to false
  only through \<^verbatim>\<open>resetToStart\<close> or through the pausing branch of \<^verbatim>\<open>togglePlay\<close>. And a
  session with a round target and an empty time limit, as \<^verbatim>\<open>startWithRounds\<close> starts
  it, never sets the flag and completes exactly at the wraparound that brings the
  completed rounds up to the target.
\<close>

lemma flag_cleared_only_by_reset_or_pause:
  assumes r: "reachable s" and en: "enabled s e"
    and before: "timeLimitReached s" and after: "\<not> timeLimitReached (apply_event e s)"
  shows "e = ResetToStart \<or> (\<exists>tp ts tn. e = TogglePlay tp ts tn \<and> isPlaying s)"
proof -
  have ni: "\<not> idle s"
    using reachable_targetsInv[OF r] before by (auto simp add: targetsInv_def idle_def)
  show ?thesis
  proof (cases e)
    case (TogglePlay tp ts tn)
    with en ni show ?thesis by (simp add: idle_def)
  next
    case (Frame now)
    with before after show ?thesis by (simp add: animate_timeLimitReached)
  qed (use en ni in simp_all)
qed

lemma round_target_completion:
  assumes "isPlaying s" "roundTargetMode s" "timeLimit s = []" "\<not> timeLimitReached s"
  shows "sessionComplete (animate now s) =
           (sessionComplete s \<or> (wraps s now \<and> completedRounds s + 1 \<ge> targetRounds s))"
    and "timeLimitReached (animate now s) = False"
    and "completedRounds (animate now s) = (if wraps s now then completedRounds s + 1 else completedRounds s)"
  using assms
  by (auto simp add: animate_sessionComplete animate_timeLimitReached animate_completedRounds roundTargetMet_def)

text \<open>
  Claim C3 at a failing input. The claim is that the time-limit flag is set only while
  no round target is in effect. The example session has a round target of 3 in effect;
  its string ``3'' is also read as three minutes by the time-limit check of \<^verbatim>\<open>animate\<close>,
  which does not look at the pattern. After a frame at 5 s, the next frame arrives at
  200 s (frames stop while the page is hidden): the flag is clear before that frame and
  set after it, with the round target still in effect.
\<close>

theorem time_limit_flag_in_round_mode:
  "runEnabled [SetExerciseType fourSevenEight, TimeLimitInput ''3'', TogglePlay 0 0 0, Frame 5000]
       initialState = Some (ticks [5000] typedRoundsSession)
   \<and> isPlaying (ticks [5000] typedRoundsSession)
   \<and> roundTargetMode (ticks [5000] typedRoundsSession)
   \<and> targetRounds (ticks [5000] typedRoundsSession) = 3
   \<and> timeLimitReached (ticks [5000] typedRoundsSession) = False
   \<and> timeLimitReached (animate 200000 (ticks [5000] typedRoundsSession))
   \<and> roundTargetMode (animate 200000 (ticks [5000] typedRoundsSession))"
proof -
  have r: "runEnabled [SetExerciseType fourSevenEight, TimeLimitInput ''3'', TogglePlay 0 0 0, Frame 5000]
       initialState = Some (ticks [5000] typedRoundsSession)"
    using typedRoundsSession_run by (simp add: ticks_def split: if_splits)
  have "isPlaying (ticks [5000] typedRoundsSession)
   \<and> roundTargetMode (ticks [5000] typedRoundsSession)
   \<and> targetRounds (ticks [5000] typedRoundsSession) = 3
   \<and> timeLimitReached (ticks [5000] typedRoundsSession) = False
   \<and> timeLimitReached (animate 200000 (ticks [5000] typedRoundsSession))
   \<and> roundTargetMode (animate 200000 (ticks [5000] typedRoundsSession))"
    by (simp add: typedRoundsSession_value eval_defs)
  with r show ?thesis by simp
qed

text \<open>
  Claim C5 at a failing input. The claim is that a session with a round target
  completes exactly at the wraparound where the completed rounds reach the target,
  never earlier. In the same session the frames at 5 s, 200 s and 208 s leave the
  session playing in the last phase with no round counted and the time-limit flag set;
  the frame at 210 s is a wraparound, counts the first round, and ends the session
  through the time-limit block with 1 of 3 rounds completed.
\<close>

theorem round_session_ends_before_target:
  "runEnabled [SetExerciseType fourSevenEight, TimeLimitInput ''3'', TogglePlay 0 0 0,
               Frame 5000, Frame 200000, Frame 208000] initialState
     = Some (ticks [5000, 200000, 208000] typedRoundsSession)
   \<and> isPlaying (ticks [5000, 200000, 208000] typedRoundsSession)
   \<and> roundTargetMode (ticks [5000, 200000, 208000] typedRoundsSession)
   \<and> targetRounds (ticks [5000, 200000, 208000] typedRoundsSession) = 3
   \<and> completedRounds (ticks [5000, 200000, 208000] typedRoundsSession) = 0
   \<and> sessionComplete (animate 210000 (ticks [5000, 200000, 208000] typedRoundsSession))
   \<and> isPlaying (animate 210000 (ticks [5000, 200000, 208000] typedRoundsSession)) = False
   \<and> completedRounds (animate 210000 (ticks [5000, 200000, 208000] typedRoundsSession)) = 1
   \<and> targetRounds (animate 210000 (ticks [5000, 200000, 208000] typedRoundsSession)) = 3"
proof -
  have r: "runEnabled [SetExerciseType fourSevenEight, TimeLimitInput ''3'', TogglePlay 0 0 0,
               Frame 5000, Frame 200000, Frame 208000] initialState
     = Some (ticks [5000, 200000, 208000] typedRoundsSession)"
    using typedRoundsSession_run by (simp add: ticks_def split: if_splits)
  have "isPlaying (ticks [5000, 200000, 208000] typedRoundsSession)
   \<and> roundTargetMode (ticks [5000, 200000, 208000] typedRoundsSession)
   \<and> targetRounds (ticks [5000, 200000, 208000] typedRoundsSession) = 3
   \<and> completedRounds (ticks [5000, 200000, 208000] typedRoundsSession) = 0
   \<and> sessionComplete (animate 210000 (ticks [5000, 200000, 208000] typedRoundsSession))
   \<and> isPlaying (animate 210000 (ticks [5000, 200000, 208000] typedRoundsSession)) = False
   \<and> completedRounds (animate 210000 (ticks [5000, 200000, 208000] typedRoundsSession)) = 1
   \<and> targetRounds (animate 210000 (ticks [5000, 200000, 208000] typedRoundsSession)) = 3"
    by (simp add: typedRoundsSession_value eval_defs)
  with r show ?thesis by simp
qed

end
